theory Spec2Isabelle
  imports Main "HOL-Library.AList" "HOL-Library.Multiset"
begin

section \<open>The spam/ham notebook: data model\<close>

text \<open>
  The repository is one notebook, \<^verbatim>\<open>spam_ham.ipynb\<close>. Its cells call pandas,
  scikit-learn, the BERT tokenizer and torch. This theory embeds the notebook's own code
  (the loading cell, the tokenizer calls, \<^verbatim>\<open>EmailDataset\<close> and \<^verbatim>\<open>predict\<close>) and, for
  each library call, the documented behaviour of the call with the arguments the notebook
  passes. What a library computes from data that is not in the repository (the WordPiece
  vocabulary, the trained network, the pseudo-random permutation) is a parameter.
\<close>

datatype error = KeyError | IndexError | ValueError | RuntimeError

text \<open>A cell of a pandas column: a string, a number, or the missing value NaN.\<close>

datatype cell = Str string | Num int | NaN

subsection \<open>Python list indexing and comprehensions\<close>

text \<open>
  \<^verbatim>\<open>xs[i]\<close> on a Python list: a negative index counts from the end, and an index
  outside \<open>[-len, len)\<close> raises IndexError.
\<close>

definition py_index :: "'a list \<Rightarrow> int \<Rightarrow> error + 'a" where
  "py_index xs i =
     (if - int (length xs) \<le> i \<and> i < int (length xs)
      then Inr (xs ! nat (if i < 0 then i + int (length xs) else i))
      else Inl IndexError)"

text \<open>A comprehension whose body may raise: the first exception ends it.\<close>

fun map_result :: "('a \<Rightarrow> error + 'b) \<Rightarrow> 'a list \<Rightarrow> error + 'b list" where
  "map_result f [] = Inr []"
| "map_result f (x # xs) =
     (case f x of
        Inl e \<Rightarrow> Inl e
      | Inr y \<Rightarrow> (case map_result f xs of Inl e \<Rightarrow> Inl e | Inr ys \<Rightarrow> Inr (y # ys)))"

section \<open>Text encoder: the tokenizer calls\<close>

text \<open>
  \<^verbatim>\<open>tokenizer = BertTokenizer.from_pretrained('bert-base-uncased')\<close>. The vocabulary
  is data outside the repository: \<open>text_ids\<close> is the WordPiece split of a text into
  vocabulary ids (without special tokens), and the three special ids are fields.
\<close>

record tokenizer =
  text_ids :: "string \<Rightarrow> int list"
  cls_token_id :: int
  sep_token_id :: int
  pad_token_id :: int

text \<open>
  The value of the \<^verbatim>\<open>padding\<close> argument. \<^verbatim>\<open>padding=True\<close> is the library's
  \<^verbatim>\<open>'longest'\<close>: pad to the longest sequence of the batch (no padding when a single
  sequence is given). \<^verbatim>\<open>padding='max_length'\<close> pads to \<^verbatim>\<open>max_length\<close>.
\<close>

datatype padding = Longest | Max_Length | Do_Not_Pad

text \<open>What the tokenizer returns: one row per text under each key.\<close>

record batch_encoding =
  input_ids :: "int list list"
  token_type_ids :: "int list list"
  attention_mask :: "int list list"

text \<open>
  One text: WordPiece ids, cut (when \<^verbatim>\<open>truncation=True\<close>) so that the sequence with
  its two special tokens has at most \<^verbatim>\<open>max_length\<close> entries, then
  \<^verbatim>\<open>[CLS] ids [SEP]\<close>. The notebook passes \<^verbatim>\<open>max_length=512\<close> everywhere.
\<close>

definition encode_one :: "tokenizer \<Rightarrow> bool \<Rightarrow> nat \<Rightarrow> string \<Rightarrow> int list" where
  "encode_one tk truncation max_length text =
     (let ids = text_ids tk text;
          ids' = (if truncation then take (max_length - 2) ids else ids)
      in cls_token_id tk # ids' @ [sep_token_id tk])"

definition longest :: "'a list list \<Rightarrow> nat" where
  "longest seqs = foldr (\<lambda>s m. max (length s) m) seqs 0"

definition target_length :: "padding \<Rightarrow> nat \<Rightarrow> int list list \<Rightarrow> int list \<Rightarrow> nat" where
  "target_length pad max_length seqs s =
     (case pad of
        Longest \<Rightarrow> longest seqs
      | Max_Length \<Rightarrow> max_length
      | Do_Not_Pad \<Rightarrow> length s)"

text \<open>Padding is on the right; a sequence already long enough is left as it is.\<close>

definition pad_to :: "nat \<Rightarrow> 'a \<Rightarrow> 'a list \<Rightarrow> 'a list" where
  "pad_to n p s = s @ replicate (n - length s) p"

text \<open>
  \<^verbatim>\<open>tokenizer(texts, truncation=..., padding=..., max_length=...)\<close> on a list of
  texts: \<open>input_ids\<close> padded with the pad token id, \<open>token_type_ids\<close> all 0 (one
  segment), \<open>attention_mask\<close> 1 on the real tokens and 0 on the padding.
\<close>

definition tokenizer_call ::
  "tokenizer \<Rightarrow> string list \<Rightarrow> bool \<Rightarrow> padding \<Rightarrow> nat \<Rightarrow> batch_encoding" where
  "tokenizer_call tk texts truncation pad max_length =
     (let seqs = map (encode_one tk truncation max_length) texts;
          n = target_length pad max_length seqs
      in \<lparr> input_ids = map (\<lambda>s. pad_to (n s) (pad_token_id tk) s) seqs,
           token_type_ids = map (\<lambda>s. pad_to (n s) 0 (replicate (length s) 0)) seqs,
           attention_mask = map (\<lambda>s. pad_to (n s) 0 (replicate (length s) 1)) seqs \<rparr>)"

text \<open>
  Cell 3 first defines
  \<^verbatim>\<open>def tokenize_function(examples): return tokenizer(examples['Message'], padding="max_length", truncation=True)\<close>
  and never calls it; without \<^verbatim>\<open>max_length\<close> the tokenizer uses its own limit, 512 for
  this model. The training path is
  \<^verbatim>\<open>train_encodings = tokenizer(list(train_df['Message']), truncation=True, padding=True, max_length=512)\<close>
  and the same call for \<^verbatim>\<open>test_encodings\<close>.
\<close>

definition tokenize_function :: "tokenizer \<Rightarrow> string list \<Rightarrow> batch_encoding" where
  "tokenize_function tk examples = tokenizer_call tk examples True Max_Length 512"

definition train_encodings :: "tokenizer \<Rightarrow> string list \<Rightarrow> batch_encoding" where
  "train_encodings tk messages = tokenizer_call tk messages True Longest 512"

definition test_encodings :: "tokenizer \<Rightarrow> string list \<Rightarrow> batch_encoding" where
  "test_encodings tk messages = tokenizer_call tk messages True Longest 512"

text \<open>
  The inference path, first line of \<^verbatim>\<open>predict\<close>:
  \<^verbatim>\<open>inputs = tokenizer(message, return_tensors='pt', truncation=True, padding=True, max_length=512)\<close>
  A single string is a batch of one row.
\<close>

definition predict_inputs :: "tokenizer \<Rightarrow> string \<Rightarrow> batch_encoding" where
  "predict_inputs tk message = tokenizer_call tk [message] True Longest 512"

text \<open>
  The common row length of one tokenizer call with \<^verbatim>\<open>padding=True\<close>, and the number of
  padding positions it appends to the row of the \<open>i\<close>-th message.
\<close>

definition batch_length :: "tokenizer \<Rightarrow> string list \<Rightarrow> nat" where
  "batch_length tk messages = longest (map (encode_one tk True 512) messages)"

definition padding_count :: "tokenizer \<Rightarrow> string list \<Rightarrow> nat \<Rightarrow> nat" where
  "padding_count tk messages i =
     batch_length tk messages - length (encode_one tk True 512 (messages ! i))"

subsection \<open>A small concrete tokenizer for evaluation\<close>

text \<open>
  Whitespace splitting and a five-word vocabulary. The special ids are those of
  \<^verbatim>\<open>bert-base-uncased\<close>: \<^verbatim>\<open>[PAD]\<close> 0, \<^verbatim>\<open>[UNK]\<close> 100 (an unknown word),
  \<^verbatim>\<open>[CLS]\<close> 101 and \<^verbatim>\<open>[SEP]\<close> 102.
\<close>

fun split_words :: "string \<Rightarrow> string \<Rightarrow> string list" where
  "split_words w [] = (if w = [] then [] else [w])"
| "split_words w (c # cs) =
     (if c = CHR '' '' then (if w = [] then split_words [] cs else w # split_words [] cs)
      else split_words (w @ [c]) cs)"

definition sample_vocab :: "(string \<times> int) list" where
  "sample_vocab =
     [(''hello'', 7592), (''world'', 2088), (''free'', 2489), (''call'', 2655), (''me'', 2033)]"

definition sample_text_ids :: "string \<Rightarrow> int list" where
  "sample_text_ids text =
     map (\<lambda>w. case map_of sample_vocab w of None \<Rightarrow> 100 | Some i \<Rightarrow> i) (split_words [] text)"

definition sample_tokenizer :: tokenizer where
  "sample_tokenizer =
     \<lparr> text_ids = sample_text_ids, cls_token_id = 101, sep_token_id = 102, pad_token_id = 0 \<rparr>"

section \<open>Inference function\<close>

text \<open>
  \<^verbatim>\<open>torch.argmax\<close> along one row: the index of the maximal value and, when several
  entries are maximal, the first of them. The running best is replaced only by a
  strictly greater entry. Scores are modelled in a linear order (NaN is outside it).
\<close>

fun argmax_from :: "nat \<Rightarrow> 'a::linorder \<Rightarrow> nat \<Rightarrow> 'a list \<Rightarrow> nat" where
  "argmax_from best bv i [] = best"
| "argmax_from best bv i (x # xs) =
     (if bv < x then argmax_from i x (Suc i) xs else argmax_from best bv (Suc i) xs)"

definition argmax :: "'a::linorder list \<Rightarrow> error + nat" where
  "argmax row = (case row of [] \<Rightarrow> Inl IndexError | x # xs \<Rightarrow> Inr (argmax_from 0 x 1 xs))"

text \<open>\<^verbatim>\<open>torch.argmax(logits, dim=-1)\<close> on a tensor of shape (batch, classes).\<close>

definition argmax_last_dim :: "'a::linorder list list \<Rightarrow> error + nat list" where
  "argmax_last_dim logits = map_result argmax logits"

text \<open>\<^verbatim>\<open>.item()\<close>: the value of a tensor with exactly one element.\<close>

definition tensor_item :: "'b list \<Rightarrow> error + 'b" where
  "tensor_item t = (case t of [v] \<Rightarrow> Inr v | _ \<Rightarrow> Inl RuntimeError)"

text \<open>
  \<^verbatim>\<open>
  def predict(message):
      inputs = tokenizer(message, return_tensors='pt', truncation=True, padding=True, max_length=512)
      outputs = model(**inputs)
      logits = outputs.logits
      prediction = torch.argmax(logits, dim=-1).item()
      return 'spam' if prediction == 1 else 'ham'
  \<close>
  The trained network is a parameter: it maps the inputs to the logits, one row of class
  scores per input row.
\<close>

definition predict ::
  "tokenizer \<Rightarrow> (batch_encoding \<Rightarrow> 'a::linorder list list) \<Rightarrow> string \<Rightarrow> error + string" where
  "predict tk model message =
     (let inputs = predict_inputs tk message;
          logits = model inputs
      in case argmax_last_dim logits of
           Inl e \<Rightarrow> Inl e
         | Inr indices \<Rightarrow>
             (case tensor_item indices of
                Inl e \<Rightarrow> Inl e
              | Inr prediction \<Rightarrow> Inr (if prediction = 1 then ''spam'' else ''ham'')))"

section \<open>Data loader: the loading cell\<close>

text \<open>
  A pandas DataFrame, column by column, with its row index. \<^verbatim>\<open>pd.read_csv\<close> (the CSV
  parser) is outside the model: the input is the table it parsed, header names with their
  columns (all of the same length, the number of rows), and the frame gets the default
  index \<open>0, 1, ..., n - 1\<close>.
\<close>

type_synonym csv_table = "(string \<times> cell list) list"

record data_frame =
  columns :: "(string \<times> cell list) list"
  index :: "nat list"

definition nrows :: "csv_table \<Rightarrow> nat" where
  "nrows table = (case table of [] \<Rightarrow> 0 | (name, col) # rest \<Rightarrow> length col)"

definition read_csv :: "csv_table \<Rightarrow> data_frame" where
  "read_csv table = \<lparr> columns = table, index = [0..<nrows table] \<rparr>"

text \<open>\<^verbatim>\<open>len(df)\<close>, \<^verbatim>\<open>df[key]\<close> (KeyError on an absent column) and \<^verbatim>\<open>df[key] = col\<close>.\<close>

definition df_len :: "data_frame \<Rightarrow> nat" where
  "df_len df = length (index df)"

definition df_getitem :: "data_frame \<Rightarrow> string \<Rightarrow> error + cell list" where
  "df_getitem df key = (case map_of (columns df) key of None \<Rightarrow> Inl KeyError | Some col \<Rightarrow> Inr col)"

definition df_setitem :: "data_frame \<Rightarrow> string \<Rightarrow> cell list \<Rightarrow> data_frame" where
  "df_setitem df key col = df\<lparr> columns := AList.update key col (columns df) \<rparr>"

text \<open>
  \<^verbatim>\<open>Series.map(d)\<close> with a dict \<open>d\<close>: each value is looked up in \<open>d\<close>; a value
  that is not a key of \<open>d\<close> becomes NaN. Nothing is raised.
\<close>

definition Series_map :: "(string \<rightharpoonup> int) \<Rightarrow> cell list \<Rightarrow> cell list" where
  "Series_map d col =
     map (\<lambda>c. case c of
                 Str s \<Rightarrow> (case d s of None \<Rightarrow> NaN | Some v \<Rightarrow> Num v)
               | Num n \<Rightarrow> NaN
               | NaN \<Rightarrow> NaN) col"

text \<open>The dict literal \<^verbatim>\<open>{'ham': 0, 'spam': 1}\<close>.\<close>

definition label_map :: "string \<rightharpoonup> int" where
  "label_map = map_of [(''ham'', 0), (''spam'', 1)]"

text \<open>\<^verbatim>\<open>df['Category'] = df['Category'].map({'ham': 0, 'spam': 1})\<close>\<close>

definition map_category :: "data_frame \<Rightarrow> error + data_frame" where
  "map_category df =
     (case df_getitem df ''Category'' of
        Inl e \<Rightarrow> Inl e
      | Inr col \<Rightarrow> Inr (df_setitem df ''Category'' (Series_map label_map col)))"

text \<open>\<^verbatim>\<open>df.iloc[positions]\<close>: the rows at the given positions, keeping their index labels.\<close>

definition iloc :: "data_frame \<Rightarrow> nat list \<Rightarrow> error + data_frame" where
  "iloc df positions =
     (if list_all (\<lambda>i. i < df_len df) positions
      then Inr \<lparr> columns = map (\<lambda>(name, col). (name, map (\<lambda>i. col ! i) positions)) (columns df),
                 index = map (\<lambda>i. index df ! i) positions \<rparr>
      else Inl IndexError)"

text \<open>
  \<^verbatim>\<open>train_test_split(df, test_size=0.2, random_state=42)\<close>. The library takes
  \<open>n_test = ceil(0.2 * n)\<close> and \<open>n_train = n - n_test\<close>, refuses an empty training
  set with ValueError, draws one permutation of \<open>0..n-1\<close> from the generator, and gives
  the first \<open>n_test\<close> positions of it to the test set and the next \<open>n_train\<close> to the
  training set. An integer \<^verbatim>\<open>random_state\<close> seeds a fresh generator; \<^verbatim>\<open>None\<close> would
  use (and advance) the process-wide one, which is the state \<open>g\<close> threaded here. The
  generator itself is a parameter: \<open>RandomState\<close> seeds it and \<open>permutation\<close> draws
  from it.
\<close>

text \<open>\<open>ceil(0.2 * n)\<close>, that is \<open>ceil(n / 5)\<close>.\<close>

definition n_test_of :: "nat \<Rightarrow> nat" where
  "n_test_of n_samples = (n_samples + 4) div 5"

definition train_test_split ::
  "(nat \<Rightarrow> 'r) \<Rightarrow> ('r \<Rightarrow> nat \<Rightarrow> nat list \<times> 'r) \<Rightarrow> data_frame \<Rightarrow> nat option \<Rightarrow> 'r
     \<Rightarrow> (error + data_frame \<times> data_frame) \<times> 'r" where
  "train_test_split RandomState permutation df random_state g =
     (let n_samples = df_len df;
          n_test = n_test_of n_samples;
          n_train = n_samples - n_test
      in if n_train = 0 then (Inl ValueError, g)
         else
           let rng = (case random_state of None \<Rightarrow> g | Some seed \<Rightarrow> RandomState seed);
               drawn = permutation rng n_samples;
               g' = (case random_state of None \<Rightarrow> snd drawn | Some seed \<Rightarrow> g);
               ind_test = take n_test (fst drawn);
               ind_train = take n_train (drop n_test (fst drawn))
           in (case iloc df ind_train of
                 Inl e \<Rightarrow> Inl e
               | Inr train \<Rightarrow>
                   (case iloc df ind_test of
                      Inl e \<Rightarrow> Inl e
                    | Inr test \<Rightarrow> Inr (train, test)),
               g'))"

text \<open>
  The loading cell from \<^verbatim>\<open>pd.read_csv\<close> to \<^verbatim>\<open>train_test_split\<close>; its result is
  \<^verbatim>\<open>(train_df, test_df)\<close>.
\<close>

definition load ::
  "(nat \<Rightarrow> 'r) \<Rightarrow> ('r \<Rightarrow> nat \<Rightarrow> nat list \<times> 'r) \<Rightarrow> csv_table \<Rightarrow> 'r
     \<Rightarrow> (error + data_frame \<times> data_frame) \<times> 'r" where
  "load RandomState permutation table g =
     (case map_category (read_csv table) of
        Inl e \<Rightarrow> (Inl e, g)
      | Inr df \<Rightarrow> train_test_split RandomState permutation df (Some 42) g)"

subsection \<open>A small table and generator for evaluation\<close>

definition sample_table :: csv_table where
  "sample_table =
     [(''Category'', [Str ''ham'', Str ''ham'', Str ''spam'', Str ''ham'', Str ''spam'']),
      (''Message'',
         [Str ''Go until jurong point'',
          Str ''Ok lar... Joking wif u oni...'',
          Str ''Free entry in 2 a wkly comp to win FA Cup final tkts'',
          Str ''hello world'',
          Str ''free call'']) ]"

text \<open>A table with a category outside the label map, and a table of a single row.\<close>

definition eggs_table :: csv_table where
  "eggs_table =
     [(''Category'', [Str ''ham'', Str ''eggs'']),
      (''Message'', [Str ''hello'', Str ''hello world''])]"

definition one_row_table :: csv_table where
  "one_row_table = [(''Category'', [Str ''ham'']), (''Message'', [Str ''hello''])]"

text \<open>
  A generator whose state is a counter: it draws the reversal in an even state and the
  identity in an odd one.
\<close>

definition sample_RandomState :: "nat \<Rightarrow> nat" where
  "sample_RandomState seed = seed"

definition sample_permutation :: "nat \<Rightarrow> nat \<Rightarrow> nat list \<times> nat" where
  "sample_permutation rng n = (if even rng then rev [0..<n] else [0..<n], Suc rng)"

section \<open>Labeled example store: \<^verbatim>\<open>EmailDataset\<close>\<close>

text \<open>
  \<^verbatim>\<open>
  class EmailDataset(torch.utils.data.Dataset):
      def __init__(self, encodings, labels):
          self.encodings = encodings
          self.labels = labels
      def __getitem__(self, idx):
          item = {key: torch.tensor(val[idx]) for key, val in self.encodings.items()}
          item['labels'] = torch.tensor(self.labels[idx])
          return item
      def __len__(self):
          return len(self.labels)
  \<close>
  \<open>encodings\<close> is held as its \<^verbatim>\<open>items()\<close>, the keys in order with their rows.
\<close>

record email_dataset =
  encodings :: "(string \<times> int list list) list"
  labels :: "cell list"

datatype tensor = Tensor1 "int list" | Tensor0 "int option"

definition items :: "batch_encoding \<Rightarrow> (string \<times> int list list) list" where
  "items e =
     [(''input_ids'', input_ids e),
      (''token_type_ids'', token_type_ids e),
      (''attention_mask'', attention_mask e)]"

definition EmailDataset :: "batch_encoding \<Rightarrow> cell list \<Rightarrow> email_dataset" where
  "EmailDataset e ls = \<lparr> encodings = items e, labels = ls \<rparr>"

text \<open>
  \<^verbatim>\<open>torch.tensor\<close> of a label: a number or NaN becomes a scalar tensor, a string is
  refused with ValueError.
\<close>

definition label_tensor :: "cell \<Rightarrow> tensor" where
  "label_tensor c = (case c of Num n \<Rightarrow> Tensor0 (Some n) | _ \<Rightarrow> Tensor0 None)"

definition torch_tensor_label :: "cell \<Rightarrow> error + tensor" where
  "torch_tensor_label c = (case c of Str s \<Rightarrow> Inl ValueError | _ \<Rightarrow> Inr (label_tensor c))"

definition EmailDataset_getitem :: "email_dataset \<Rightarrow> int \<Rightarrow> error + (string \<times> tensor) list" where
  "EmailDataset_getitem self idx =
     (case map_result
             (\<lambda>(key, val). case py_index val idx of
                              Inl e \<Rightarrow> Inl e
                            | Inr row \<Rightarrow> Inr (key, Tensor1 row))
             (encodings self) of
        Inl e \<Rightarrow> Inl e
      | Inr item \<Rightarrow>
          (case py_index (labels self) idx of
             Inl e \<Rightarrow> Inl e
           | Inr l \<Rightarrow>
               (case torch_tensor_label l of
                  Inl e \<Rightarrow> Inl e
                | Inr t \<Rightarrow> Inr (AList.update ''labels'' t item))))"

definition EmailDataset_len :: "email_dataset \<Rightarrow> nat" where
  "EmailDataset_len self = length (labels self)"

text \<open>
  The store as the notebook builds it: every key of the encodings has one row per label,
  and the labels are numbers or NaN. \<open>record_at\<close> is the record at a position.
\<close>

definition is_number :: "cell \<Rightarrow> bool" where
  "is_number c = (case c of Str s \<Rightarrow> False | _ \<Rightarrow> True)"

definition parallel :: "email_dataset \<Rightarrow> bool" where
  "parallel self =
     (list_all (\<lambda>(key, val). length val = length (labels self)) (encodings self)
      \<and> list_all is_number (labels self))"

definition record_at :: "email_dataset \<Rightarrow> nat \<Rightarrow> (string \<times> tensor) list" where
  "record_at self k =
     AList.update ''labels'' (label_tensor (labels self ! k))
       (map (\<lambda>(key, val). (key, Tensor1 (val ! k))) (encodings self))"

definition sample_dataset :: email_dataset where
  "sample_dataset =
     EmailDataset (train_encodings sample_tokenizer [''hello'', ''hello world'']) [Num 0, Num 1]"

section \<open>Properties of the inference function\<close>

text \<open>
  \<open>argmax\<close> returns the first index that holds a maximal entry: no entry is greater,
  and every earlier entry is strictly smaller.
\<close>

lemma argmax_from_spec:
  assumes "best < i" "pre @ xs = ys" "length pre = i" "best < length pre" "bv = pre ! best"
     "\<forall>j < i. pre ! j \<le> bv" "\<forall>j < best. pre ! j < bv"
  shows "argmax_from best bv i xs < length ys \<and>
         (\<forall>j < length ys. ys ! j \<le> ys ! argmax_from best bv i xs) \<and>
         (\<forall>j < argmax_from best bv i xs. ys ! j < ys ! argmax_from best bv i xs)"
  using assms
proof (induction xs arbitrary: best bv i pre)
  case Nil
  then show ?case by auto
next
  case (Cons x xs)
  show ?case
  proof (cases "bv < x")
    case True
    have "argmax_from i x (Suc i) xs < length ys \<and>
         (\<forall>j < length ys. ys ! j \<le> ys ! argmax_from i x (Suc i) xs) \<and>
         (\<forall>j < argmax_from i x (Suc i) xs. ys ! j < ys ! argmax_from i x (Suc i) xs)"
    proof (rule Cons.IH[where pre = "pre @ [x]"])
      show "i < Suc i" by simp
      show "(pre @ [x]) @ xs = ys" using Cons.prems by simp
      show "length (pre @ [x]) = Suc i" using Cons.prems by simp
      show "i < length (pre @ [x])" using Cons.prems by simp
      show "x = (pre @ [x]) ! i" using Cons.prems by (simp add: nth_append)
      show "\<forall>j<Suc i. (pre @ [x]) ! j \<le> x"
        using Cons.prems True by (auto simp: nth_append less_Suc_eq intro: less_imp_le order.trans)
      show "\<forall>j<i. (pre @ [x]) ! j < x"
        using Cons.prems True by (auto simp: nth_append intro: le_less_trans)
    qed
    with True show ?thesis by simp
  next
    case False
    have "argmax_from best bv (Suc i) xs < length ys \<and>
         (\<forall>j < length ys. ys ! j \<le> ys ! argmax_from best bv (Suc i) xs) \<and>
         (\<forall>j < argmax_from best bv (Suc i) xs. ys ! j < ys ! argmax_from best bv (Suc i) xs)"
    proof (rule Cons.IH[where pre = "pre @ [x]"])
      show "best < Suc i" using Cons.prems by simp
      show "(pre @ [x]) @ xs = ys" using Cons.prems by simp
      show "length (pre @ [x]) = Suc i" using Cons.prems by simp
      show "best < length (pre @ [x])" using Cons.prems by simp
      show "bv = (pre @ [x]) ! best" using Cons.prems by (simp add: nth_append)
      show "\<forall>j<Suc i. (pre @ [x]) ! j \<le> bv"
        using Cons.prems False by (auto simp: nth_append less_Suc_eq)
      show "\<forall>j<best. (pre @ [x]) ! j < bv"
        using Cons.prems by (auto simp: nth_append)
    qed
    with False show ?thesis by simp
  qed
qed

lemma argmax_first_maximum:
  assumes "argmax ys = Inr k"
  shows "k < length ys \<and> (\<forall>j < length ys. ys ! j \<le> ys ! k) \<and> (\<forall>j < k. ys ! j < ys ! k)"
proof (cases ys)
  case Nil
  with assms show ?thesis by (simp add: argmax_def)
next
  case (Cons x xs)
  with assms have k: "k = argmax_from 0 x 1 xs" by (simp add: argmax_def)
  have "argmax_from 0 x (Suc 0) xs < length ys \<and>
         (\<forall>j < length ys. ys ! j \<le> ys ! argmax_from 0 x (Suc 0) xs) \<and>
         (\<forall>j < argmax_from 0 x (Suc 0) xs. ys ! j < ys ! argmax_from 0 x (Suc 0) xs)"
    by (rule argmax_from_spec[where pre = "[x]"]) (use Cons in auto)
  with k show ?thesis by simp
qed

text \<open>
  Claim C1. For every message, \<open>predict\<close> returns the label of the class whose score
  is strictly greater; when the two scores are equal the lowest index wins and the
  result is \<open>ham\<close>. Equivalently the result is \<open>spam\<close> exactly when the argmax of
  the two scores, ties to index 0, is 1. The network returns one row of two scores for
  the one message (\<^verbatim>\<open>num_labels=2\<close>); scores are compared in a linear order.
\<close>

theorem predict_decision_rule:
  assumes "model (predict_inputs tk message) = [[ham_score, spam_score]]"
  shows "predict tk model message = Inr (if ham_score < spam_score then ''spam'' else ''ham'')
       \<and> argmax [ham_score, spam_score] = Inr (if ham_score < spam_score then 1 else 0)"
  using assms by (simp add: predict_def argmax_last_dim_def argmax_def tensor_item_def)

theorem predict_decision_rule_witness:
  "predict sample_tokenizer (\<lambda>inputs. [[2, 2 :: int]]) ''hello world'' = Inr ''ham''
   \<and> predict sample_tokenizer (\<lambda>inputs. [[-1, 3 :: int]]) ''free call'' = Inr ''spam''
   \<and> predict sample_tokenizer (\<lambda>inputs. [[3, -1 :: int]]) ''call me'' = Inr ''ham''"
  using predict_decision_rule [of "\<lambda>inputs. [[2, 2 :: int]]" sample_tokenizer "''hello world''" 2 2]
        predict_decision_rule [of "\<lambda>inputs. [[-1, 3 :: int]]" sample_tokenizer "''free call''" "-1" 3]
        predict_decision_rule [of "\<lambda>inputs. [[3, -1 :: int]]" sample_tokenizer "''call me''" 3 "-1"]
  by simp

section \<open>Properties of the text encoder\<close>

lemma length_encode_one:
  "length (encode_one tk True 512 text) = min 512 (length (text_ids tk text) + 2)"
  by (simp add: encode_one_def Let_def)

lemma length_le_longest: "s \<in> set seqs \<Longrightarrow> length s \<le> longest seqs"
  unfolding longest_def by (induction seqs) auto

lemma longest_le: "(\<And>s. s \<in> set seqs \<Longrightarrow> length s \<le> n) \<Longrightarrow> longest seqs \<le> n"
  unfolding longest_def by (induction seqs) auto

lemma longest_Cons: "longest (s # seqs) = max (length s) (longest seqs)"
  by (simp add: longest_def)

lemma longest_attained: "seqs \<noteq> [] \<Longrightarrow> \<exists>s \<in> set seqs. longest seqs = length s"
proof (induction seqs)
  case Nil
  then show ?case by simp
next
  case (Cons a seqs)
  show ?case
  proof (cases "seqs = []")
    case True
    then show ?thesis by (simp add: longest_def)
  next
    case False
    with Cons.IH obtain s where "s \<in> set seqs" "longest seqs = length s" by blast
    then show ?thesis by (auto simp: longest_Cons max_def)
  qed
qed

lemma batch_length_ge:
  "i < length messages \<Longrightarrow>
   length (encode_one tk True 512 (messages ! i)) \<le> batch_length tk messages"
  unfolding batch_length_def by (rule length_le_longest) simp

lemma batch_length_le: "batch_length tk messages \<le> 512"
  unfolding batch_length_def by (rule longest_le) (auto simp: length_encode_one)

lemma batch_length_attained:
  assumes "messages \<noteq> []"
  shows "\<exists>j < length messages.
           batch_length tk messages = min 512 (length (text_ids tk (messages ! j)) + 2)"
proof -
  from assms have "map (encode_one tk True 512) messages \<noteq> []" by simp
  from longest_attained[OF this] obtain s where
    s: "s \<in> set (map (encode_one tk True 512) messages)" "batch_length tk messages = length s"
    unfolding batch_length_def by blast
  then obtain j where "j < length messages" "s = encode_one tk True 512 (messages ! j)"
    by (auto simp: in_set_conv_nth)
  with s show ?thesis by (auto simp: length_encode_one)
qed

lemma input_ids_nth:
  "i < length messages \<Longrightarrow>
   input_ids (tokenizer_call tk messages True Longest 512) ! i =
     encode_one tk True 512 (messages ! i) @
     replicate (padding_count tk messages i) (pad_token_id tk)"
  by (simp add: tokenizer_call_def Let_def target_length_def pad_to_def batch_length_def
      padding_count_def)

lemma attention_mask_nth:
  "i < length messages \<Longrightarrow>
   attention_mask (tokenizer_call tk messages True Longest 512) ! i =
     replicate (length (encode_one tk True 512 (messages ! i))) 1 @
     replicate (padding_count tk messages i) 0"
  by (simp add: tokenizer_call_def Let_def target_length_def pad_to_def batch_length_def
      padding_count_def)

lemma token_type_ids_nth:
  "i < length messages \<Longrightarrow>
   token_type_ids (tokenizer_call tk messages True Longest 512) ! i =
     replicate (length (encode_one tk True 512 (messages ! i))) 0 @
     replicate (padding_count tk messages i) 0"
  by (simp add: tokenizer_call_def Let_def target_length_def pad_to_def batch_length_def
      padding_count_def)

lemma predict_inputs_eq:
  "predict_inputs tk message =
     \<lparr> input_ids = [encode_one tk True 512 message],
       token_type_ids = [replicate (length (encode_one tk True 512 message)) 0],
       attention_mask = [replicate (length (encode_one tk True 512 message)) 1] \<rparr>"
  by (simp add: predict_inputs_def tokenizer_call_def Let_def target_length_def pad_to_def
      longest_def)

lemma trailing_zeros:
  "0 < n \<Longrightarrow> length (takeWhile (\<lambda>b. b = 0) (rev (replicate n (1::int) @ replicate p 0))) = p"
  by (cases n) (simp_all add: takeWhile_append)

lemma sample_encodings:
  "train_encodings sample_tokenizer [''hello'', ''hello world''] =
     \<lparr> input_ids = [[101, 7592, 102, 0], [101, 7592, 2088, 102]],
       token_type_ids = [[0, 0, 0, 0], [0, 0, 0, 0]],
       attention_mask = [[1, 1, 1, 0], [1, 1, 1, 1]] \<rparr>"
  by (simp add: train_encodings_def tokenizer_call_def Let_def target_length_def pad_to_def
      longest_def encode_one_def sample_tokenizer_def sample_text_ids_def sample_vocab_def)

lemma sample_predict_inputs:
  "predict_inputs sample_tokenizer ''hello'' =
     \<lparr> input_ids = [[101, 7592, 102]], token_type_ids = [[0, 0, 0]],
       attention_mask = [[1, 1, 1]] \<rparr>"
  by (simp add: predict_inputs_eq encode_one_def sample_tokenizer_def sample_text_ids_def
      sample_vocab_def)

lemma sample_pad_token_id: "pad_token_id sample_tokenizer = 0"
  by (simp add: sample_tokenizer_def)

lemma sample_batch_length: "batch_length sample_tokenizer [''hello'', ''hello world''] = 4"
  by (simp add: batch_length_def longest_def encode_one_def sample_tokenizer_def
      sample_text_ids_def sample_vocab_def)

lemma sample_padding_count: "padding_count sample_tokenizer [''hello'', ''hello world''] 0 = 1"
  by (simp add: padding_count_def sample_batch_length)
     (simp add: encode_one_def sample_tokenizer_def sample_text_ids_def sample_vocab_def)

text \<open>
  Claim C2, as stated: every encoding has \<open>token_ids\<close> and \<open>attention_mask\<close> of length
  exactly \<open>L = 512\<close>. The notebook calls the tokenizer with \<^verbatim>\<open>padding=True\<close>, which pads
  to the longest row of the call: the batch of \<open>hello\<close> and \<open>hello world\<close> has rows of
  length 4, and \<open>hello\<close> alone, as \<open>predict\<close> encodes it, has a row of length 3.
\<close>

theorem encodings_length_counterexample:
  "input_ids (train_encodings sample_tokenizer [''hello'', ''hello world''])
     = [[101, 7592, 102, 0], [101, 7592, 2088, 102]]
   \<and> length (input_ids (train_encodings sample_tokenizer [''hello'', ''hello world'']) ! 0) \<noteq> 512
   \<and> length (attention_mask (predict_inputs sample_tokenizer ''hello'') ! 0) \<noteq> 512"
  by (simp add: sample_encodings sample_predict_inputs)

text \<open>
  Claim C2, amended. In one tokenizer call with \<open>L = 512\<close>, every row of \<open>token_ids\<close>
  and of \<open>attention_mask\<close> has the same length, the length of the longest encoded message
  of the call: a message of \<open>t\<close> WordPiece tokens is encoded in \<open>min 512 (t + 2)\<close>
  positions (truncated to at most \<open>L\<close>), and shorter rows are padded up to the longest.
  The common length is at most \<open>L\<close>.
\<close>

theorem encodings_common_length:
  assumes "i < length messages"
  shows "length (input_ids (tokenizer_call tk messages True Longest 512) ! i)
           = batch_length tk messages
       \<and> length (attention_mask (tokenizer_call tk messages True Longest 512) ! i)
           = batch_length tk messages
       \<and> batch_length tk messages \<le> 512
       \<and> min 512 (length (text_ids tk (messages ! i)) + 2) \<le> batch_length tk messages
       \<and> (\<exists>j < length messages.
             batch_length tk messages = min 512 (length (text_ids tk (messages ! j)) + 2))"
proof -
  have ge: "length (encode_one tk True 512 (messages ! i)) \<le> batch_length tk messages"
    using assms by (rule batch_length_ge)
  have "messages \<noteq> []" using assms by auto
  then have att: "\<exists>j < length messages.
             batch_length tk messages = min 512 (length (text_ids tk (messages ! j)) + 2)"
    by (rule batch_length_attained)
  show ?thesis
    using assms ge att batch_length_le[of tk messages]
    by (simp add: input_ids_nth attention_mask_nth length_encode_one padding_count_def)
qed

theorem encodings_common_length_witness:
  "length (input_ids (tokenizer_call sample_tokenizer [''hello'', ''hello world''] True Longest 512) ! 0) = 4
   \<and> length (attention_mask (tokenizer_call sample_tokenizer [''hello'', ''hello world''] True Longest 512) ! 0) = 4
   \<and> batch_length sample_tokenizer [''hello'', ''hello world''] = 4"
  using encodings_common_length [of 0 "[''hello'', ''hello world'']" sample_tokenizer]
  by (simp add: sample_batch_length)

text \<open>
  Claim C3, as stated: the encoding of a message in a batch equals its encoding alone.
  In the batch of \<open>hello\<close> and \<open>hello world\<close> the row of \<open>hello\<close> carries one padding
  position; encoded alone, as \<open>predict\<close> does, it carries none.
\<close>

theorem batch_independence_counterexample:
  "input_ids (train_encodings sample_tokenizer [''hello'', ''hello world'']) ! 0 = [101, 7592, 102, 0]
   \<and> input_ids (predict_inputs sample_tokenizer ''hello'') ! 0 = [101, 7592, 102]
   \<and> input_ids (train_encodings sample_tokenizer [''hello'', ''hello world'']) ! 0
       \<noteq> input_ids (predict_inputs sample_tokenizer ''hello'') ! 0
   \<and> attention_mask (train_encodings sample_tokenizer [''hello'', ''hello world'']) ! 0
       \<noteq> attention_mask (predict_inputs sample_tokenizer ''hello'') ! 0"
  by (simp add: sample_encodings sample_predict_inputs)

text \<open>
  Claim C3, amended. For every message of a batch, its row in the batch encoding is its
  single-message encoding followed by padding (the pad token in \<open>token_ids\<close>, 0 in
  \<open>attention_mask\<close>) up to the longest row of the batch. The other messages of the batch
  decide only the number of padding positions, and the two encodings are equal exactly
  when that number is 0, that is when the message is a longest one of its batch.
\<close>

theorem batch_encoding_padded_single:
  assumes "i < length messages"
  shows "input_ids (tokenizer_call tk messages True Longest 512) ! i
           = input_ids (predict_inputs tk (messages ! i)) ! 0
             @ replicate (padding_count tk messages i) (pad_token_id tk)
       \<and> attention_mask (tokenizer_call tk messages True Longest 512) ! i
           = attention_mask (predict_inputs tk (messages ! i)) ! 0
             @ replicate (padding_count tk messages i) 0
       \<and> (input_ids (tokenizer_call tk messages True Longest 512) ! i
            = input_ids (predict_inputs tk (messages ! i)) ! 0)
          = (padding_count tk messages i = 0)
       \<and> (attention_mask (tokenizer_call tk messages True Longest 512) ! i
            = attention_mask (predict_inputs tk (messages ! i)) ! 0)
          = (padding_count tk messages i = 0)"
  using assms by (simp add: input_ids_nth attention_mask_nth predict_inputs_eq)

theorem batch_encoding_padded_single_witness:
  "input_ids (tokenizer_call sample_tokenizer [''hello'', ''hello world''] True Longest 512) ! 0
     = input_ids (predict_inputs sample_tokenizer ''hello'') ! 0 @ [0]
   \<and> attention_mask (tokenizer_call sample_tokenizer [''hello'', ''hello world''] True Longest 512) ! 0
     = attention_mask (predict_inputs sample_tokenizer ''hello'') ! 0 @ [0]"
  using batch_encoding_padded_single [of 0 "[''hello'', ''hello world'']" sample_tokenizer]
  by (simp add: sample_padding_count sample_pad_token_id)

text \<open>
  Claim C9. For every message of a tokenizer call, and so for every text shorter than
  \<open>L\<close> after tokenization, the row of \<open>token_ids\<close> is the encoded message followed by
  the inserted padding positions, the row of \<open>attention_mask\<close> is 1 on every position of
  the encoded message and 0 on every padding position, and the number of zeros at the
  end of the mask is exactly the number of padding positions inserted.
\<close>

theorem attention_mask_trailing_zeros:
  assumes "i < length messages"
  shows "input_ids (tokenizer_call tk messages True Longest 512) ! i
           = encode_one tk True 512 (messages ! i)
             @ replicate (padding_count tk messages i) (pad_token_id tk)
       \<and> attention_mask (tokenizer_call tk messages True Longest 512) ! i
           = replicate (length (encode_one tk True 512 (messages ! i))) 1
             @ replicate (padding_count tk messages i) 0
       \<and> length (takeWhile (\<lambda>b. b = 0)
                   (rev (attention_mask (tokenizer_call tk messages True Longest 512) ! i)))
           = padding_count tk messages i"
proof -
  have "0 < length (encode_one tk True 512 (messages ! i))"
    by (simp add: length_encode_one)
  then show ?thesis
    using assms by (simp only: input_ids_nth attention_mask_nth trailing_zeros simp_thms)
qed

theorem attention_mask_trailing_zeros_witness:
  "attention_mask (tokenizer_call sample_tokenizer [''hello'', ''hello world''] True Longest 512) ! 0
     = [1, 1, 1, 0]
   \<and> length (takeWhile (\<lambda>b. b = 0)
        (rev (attention_mask
                (tokenizer_call sample_tokenizer [''hello'', ''hello world''] True Longest 512) ! 0)))
     = 1
   \<and> padding_count sample_tokenizer [''hello'', ''hello world''] 0 = 1"
  using attention_mask_trailing_zeros [of 0 "[''hello'', ''hello world'']" sample_tokenizer]
  by (simp add: sample_padding_count)
     (simp add: encode_one_def sample_tokenizer_def sample_text_ids_def sample_vocab_def)

section \<open>Properties of the data loader\<close>

lemma df_len_read_csv: "df_len (read_csv table) = nrows table"
  by (simp add: df_len_def read_csv_def)

lemma map_category_read_csv:
  "map_category (read_csv table) =
     (case map_of table ''Category'' of
        None \<Rightarrow> Inl KeyError
      | Some cats \<Rightarrow> Inr \<lparr> columns = AList.update ''Category'' (Series_map label_map cats) table,
                          index = [0..<nrows table] \<rparr>)"
  by (simp add: map_category_def df_getitem_def df_setitem_def read_csv_def split: option.splits)

lemma map_of_Category: "(map_of table ''Category'' = None) = (''Category'' \<notin> fst ` set table)"
  by (simp add: map_of_eq_None_iff)

lemma iloc_range:
  assumes "index df = [0..<n]" "list_all (\<lambda>i. i < n) positions"
  shows "\<exists>df'. iloc df positions = Inr df' \<and> index df' = positions"
proof -
  have "map (\<lambda>i. [0..<n] ! i) positions = positions"
    using assms(2) by (induction positions) auto
  with assms show ?thesis by (simp add: iloc_def df_len_def)
qed

lemma permutation_facts:
  assumes "mset p = mset [0..<n]"
  shows "distinct p" "set p = {0..<n}" "length p = n"
proof -
  show "distinct p" using assms by (metis distinct_upt mset_eq_imp_distinct_iff)
  show "set p = {0..<n}" using assms by (metis mset_eq_setD set_upt)
  show "length p = n" using assms by (metis length_upt mset_eq_length minus_nat.diff_0)
qed

lemma n_train_pos: "2 \<le> n \<Longrightarrow> 0 < n - n_test_of n"
  by (simp add: n_test_of_def)

lemma n_train_zero: "n < 2 \<Longrightarrow> n - n_test_of n = 0"
  by (simp add: n_test_of_def)

lemma n_test_le: "n_test_of n \<le> n"
  by (simp add: n_test_of_def)

lemma load_absent:
  "''Category'' \<notin> fst ` set table \<Longrightarrow> load RandomState permutation table g = (Inl KeyError, g)"
  by (simp add: load_def map_category_read_csv flip: map_of_Category)

lemma load_too_small:
  "''Category'' \<in> fst ` set table \<Longrightarrow> nrows table < 2 \<Longrightarrow>
   load RandomState permutation table g = (Inl ValueError, g)"
  using map_of_Category[of table] n_train_zero[of "nrows table"]
  by (auto simp add: load_def map_category_read_csv train_test_split_def Let_def df_len_def
      split: option.splits)

lemma load_success:
  assumes cat: "''Category'' \<in> fst ` set table"
      and n: "2 \<le> nrows table"
      and perm: "mset (fst (permutation (RandomState 42) (nrows table))) = mset [0..<nrows table]"
  shows "\<exists>train test. load RandomState permutation table g = (Inr (train, test), g)
           \<and> index test = take (n_test_of (nrows table)) (fst (permutation (RandomState 42) (nrows table)))
           \<and> index train = drop (n_test_of (nrows table)) (fst (permutation (RandomState 42) (nrows table)))"
proof -
  let ?n = "nrows table"
  let ?p = "fst (permutation (RandomState 42) ?n)"
  from cat obtain cats where cats: "map_of table ''Category'' = Some cats"
    using map_of_Category[of table] by (cases "map_of table ''Category''") auto
  define df where "df = \<lparr> columns = AList.update ''Category'' (Series_map label_map cats) table,
                          index = [0..<?n] \<rparr>"
  have mc: "map_category (read_csv table) = Inr df"
    by (simp add: map_category_read_csv cats df_def)
  have idx: "index df = [0..<?n]" and len: "df_len df = ?n" by (simp_all add: df_def df_len_def)
  note pf = permutation_facts[OF perm]
  have all: "list_all (\<lambda>i. i < ?n) ?p" using pf(2) by (auto simp: list_all_iff)
  have t1: "list_all (\<lambda>i. i < ?n) (take (n_test_of ?n) ?p)"
    using all by (auto simp: list_all_iff dest: in_set_takeD)
  have t2: "list_all (\<lambda>i. i < ?n) (take (?n - n_test_of ?n) (drop (n_test_of ?n) ?p))"
    using all by (auto simp: list_all_iff dest!: in_set_takeD in_set_dropD)
  have full: "take (?n - n_test_of ?n) (drop (n_test_of ?n) ?p) = drop (n_test_of ?n) ?p"
    using pf(3) by simp
  from iloc_range[OF idx t1] obtain test where
    test: "iloc df (take (n_test_of ?n) ?p) = Inr test" "index test = take (n_test_of ?n) ?p" by blast
  from iloc_range[OF idx t2] obtain train where
    train: "iloc df (take (?n - n_test_of ?n) (drop (n_test_of ?n) ?p)) = Inr train"
      "index train = take (?n - n_test_of ?n) (drop (n_test_of ?n) ?p)" by blast
  have "load RandomState permutation table g = (Inr (train, test), g)"
    using n_train_pos[OF n] test(1) train(1)
    by (simp add: load_def mc train_test_split_def Let_def len)
  with test(2) train(2) full show ?thesis by auto
qed

lemma load_state: "snd (load RandomState permutation table g) = g"
  by (simp add: load_def train_test_split_def Let_def split: sum.splits)

text \<open>
  Without a seed the split follows the process-wide generator; the constant seed is what
  makes the partitions independent of it.
\<close>

lemma unseeded_split_follows_state:
  "fst (train_test_split sample_RandomState sample_permutation (read_csv eggs_table) None 0)
     \<noteq> fst (train_test_split sample_RandomState sample_permutation (read_csv eggs_table) None 1)"
  by (simp add: train_test_split_def Let_def read_csv_def eggs_table_def df_len_def nrows_def
      n_test_of_def sample_permutation_def iloc_def)

text \<open>The unused \<open>tokenize_function\<close> is the call that pads every row to 512.\<close>

lemma tokenize_function_length:
  "i < length examples \<Longrightarrow> length (input_ids (tokenize_function tk examples) ! i) = 512"
  by (simp add: tokenize_function_def tokenizer_call_def Let_def target_length_def pad_to_def
      encode_one_def)

lemma Series_map_nth:
  "i < length col \<Longrightarrow>
   Series_map d col ! i =
     (case col ! i of Str s \<Rightarrow> (case d s of None \<Rightarrow> NaN | Some v \<Rightarrow> Num v) | Num n \<Rightarrow> NaN | NaN \<Rightarrow> NaN)"
  by (simp add: Series_map_def)

lemma label_map_simps:
  "label_map ''ham'' = Some 0" "label_map ''spam'' = Some 1"
  "c \<noteq> ''ham'' \<Longrightarrow> c \<noteq> ''spam'' \<Longrightarrow> label_map c = None"
  by (simp_all add: label_map_def)

lemma df_getitem_setitem:
  "df_getitem (df_setitem df key col) key' = (if key' = key then Inr col else df_getitem df key')"
  by (simp add: df_getitem_def df_setitem_def update_conv')

lemma sample_category:
  "df_getitem (read_csv sample_table) ''Category''
     = Inr [Str ''ham'', Str ''ham'', Str ''spam'', Str ''ham'', Str ''spam'']"
  by (simp add: df_getitem_def read_csv_def sample_table_def)

lemma sample_permutation_mset: "mset (fst (sample_permutation rng n)) = mset [0..<n]"
  by (simp add: sample_permutation_def)

text \<open>
  Claim C4, as stated: a category value that is not a key of the label map makes
  \<open>load\<close> fail. \<^verbatim>\<open>Series.map\<close> raises nothing: in a table whose second row has the
  category \<open>eggs\<close>, \<open>load\<close> returns both partitions, and that row is in the test
  partition with the label NaN.
\<close>

theorem load_unmapped_category_counterexample:
  "fst (load sample_RandomState sample_permutation eggs_table (0::nat)) =
     Inr (\<lparr> columns = [(''Category'', [Num 0]), (''Message'', [Str ''hello''])], index = [0] \<rparr>,
          \<lparr> columns = [(''Category'', [NaN]), (''Message'', [Str ''hello world''])], index = [1] \<rparr>)"
  by (simp add: load_def map_category_read_csv eggs_table_def train_test_split_def Let_def
      df_len_def nrows_def n_test_of_def sample_permutation_def sample_RandomState_def
      iloc_def Series_map_def label_map_def)

text \<open>
  Claim C4, amended. \<open>load\<close> fails with KeyError, the loader's parse error, exactly
  when the \<open>Category\<close> column is absent. A category value that is not a key of the
  label map raises nothing: the mapping step succeeds on every \<open>Category\<close> column and
  gives such a row the label NaN, and with the column present and at least two rows
  \<open>load\<close> returns its two partitions whatever the category values are. (The generator
  is assumed to draw a permutation of the row positions.)
\<close>

theorem load_failure_cases:
  assumes "mset (fst (permutation (RandomState 42) (nrows table))) = mset [0..<nrows table]"
  shows "(fst (load RandomState permutation table g) = Inl KeyError)
           = (''Category'' \<notin> fst ` set table)
       \<and> (\<forall>cats. map_of table ''Category'' = Some cats \<longrightarrow>
             map_category (read_csv table)
               = Inr (df_setitem (read_csv table) ''Category'' (Series_map label_map cats))
           \<and> (\<forall>i c. i < length cats \<and> cats ! i = Str c \<and> c \<noteq> ''ham'' \<and> c \<noteq> ''spam'' \<longrightarrow>
                  Series_map label_map cats ! i = NaN))
       \<and> (''Category'' \<in> fst ` set table \<and> 2 \<le> nrows table \<longrightarrow>
             (\<exists>train test. fst (load RandomState permutation table g) = Inr (train, test)))"
proof (intro conjI allI impI)
  show "(fst (load RandomState permutation table g) = Inl KeyError)
           = (''Category'' \<notin> fst ` set table)"
  proof (cases "''Category'' \<in> fst ` set table")
    case False
    then show ?thesis by (simp add: load_absent)
  next
    case True
    show ?thesis
    proof (cases "2 \<le> nrows table")
      case True
      from load_success[where permutation = permutation and RandomState = RandomState and g = g,
          OF \<open>''Category'' \<in> fst ` set table\<close> True assms]
      show ?thesis using \<open>''Category'' \<in> fst ` set table\<close> by auto
    next
      case False
      then have "nrows table < 2" by simp
      from load_too_small[OF True this, of RandomState permutation g]
      show ?thesis using True by simp
    qed
  qed
next
  fix cats assume "map_of table ''Category'' = Some cats"
  then show "map_category (read_csv table)
               = Inr (df_setitem (read_csv table) ''Category'' (Series_map label_map cats))"
    by (simp add: map_category_def df_getitem_def read_csv_def)
next
  fix cats :: "cell list" and i c
  assume "i < length cats \<and> cats ! i = Str c \<and> c \<noteq> ''ham'' \<and> c \<noteq> ''spam''"
  then show "Series_map label_map cats ! i = NaN"
    by (simp add: Series_map_nth label_map_simps)
next
  assume "''Category'' \<in> fst ` set table \<and> 2 \<le> nrows table"
  then have c: "''Category'' \<in> fst ` set table" and n: "2 \<le> nrows table" by simp_all
  from load_success[where permutation = permutation and RandomState = RandomState and g = g,
      OF c n assms]
  show "\<exists>train test. fst (load RandomState permutation table g) = Inr (train, test)"
    by auto
qed

theorem load_failure_cases_witness:
  "fst (load sample_RandomState sample_permutation [(''Message'', [Str ''hello''])] (0::nat))
     = Inl KeyError
   \<and> Series_map label_map [Str ''ham'', Str ''eggs''] ! 1 = NaN
   \<and> (\<exists>train test.
         fst (load sample_RandomState sample_permutation eggs_table (0::nat)) = Inr (train, test))"
proof -
  note w = load_failure_cases [of sample_permutation sample_RandomState]
  have absent: "''Category'' \<notin> fst ` set [(''Message'', [Str ''hello''])]" by simp
  have present: "''Category'' \<in> fst ` set eggs_table" "2 \<le> nrows eggs_table"
    and cats: "map_of eggs_table ''Category'' = Some [Str ''ham'', Str ''eggs'']"
    by (simp_all add: eggs_table_def nrows_def)
  have "fst (load sample_RandomState sample_permutation [(''Message'', [Str ''hello''])] (0::nat))
     = Inl KeyError"
    using w [of "[(''Message'', [Str ''hello''])]" 0] absent
    by (simp only: sample_permutation_mset simp_thms)
  moreover have "Series_map label_map [Str ''ham'', Str ''eggs''] ! 1 = NaN"
    using w [of eggs_table 0] cats
    by (simp only: sample_permutation_mset) (auto simp: )
  moreover have "\<exists>train test.
         fst (load sample_RandomState sample_permutation eggs_table (0::nat)) = Inr (train, test)"
    using w [of eggs_table 0] present
    by (simp only: sample_permutation_mset simp_thms)
  ultimately show ?thesis by simp
qed

text \<open>
  Claim C6, as stated: for every valid input file \<open>load\<close> returns two partitions. A
  file of one row, with both columns and the category \<open>ham\<close>, is refused: the test set
  would take \<open>ceil(0.2 * 1) = 1\<close> row and the split raises ValueError on the empty
  training set.
\<close>

theorem load_one_row_counterexample:
  "fst (load sample_RandomState sample_permutation one_row_table (0::nat)) = Inl ValueError"
  by (simp add: load_def map_category_read_csv one_row_table_def train_test_split_def Let_def
      df_len_def nrows_def n_test_of_def)

text \<open>
  Claim C6, amended. For every input file with the \<open>Category\<close> column and at least two
  rows, \<open>load\<close> returns a train and a test partition whose sizes sum exactly to the
  number of input rows, no row is in both partitions, and every row is in one of them;
  the test partition has \<open>ceil(n / 5)\<close> rows. (The generator is assumed to draw a
  permutation of the row positions.)
\<close>

theorem load_partitions:
  assumes "''Category'' \<in> fst ` set table"
      and "2 \<le> nrows table"
      and "mset (fst (permutation (RandomState 42) (nrows table))) = mset [0..<nrows table]"
  shows "\<exists>train test. fst (load RandomState permutation table g) = Inr (train, test)
           \<and> df_len train + df_len test = nrows table
           \<and> set (index train) \<inter> set (index test) = {}
           \<and> set (index train) \<union> set (index test) = {0..<nrows table}
           \<and> distinct (index train) \<and> distinct (index test)
           \<and> df_len test = (nrows table + 4) div 5"
proof -
  let ?n = "nrows table"
  let ?p = "fst (permutation (RandomState 42) ?n)"
  let ?k = "n_test_of ?n"
  from load_success[where permutation = permutation and RandomState = RandomState and g = g,
      OF assms] obtain train test where
    l: "load RandomState permutation table g = (Inr (train, test), g)"
    and te: "index test = take ?k ?p" and tr: "index train = drop ?k ?p" by blast
  note pf = permutation_facts[OF assms(3)]
  have "df_len train + df_len test = ?n"
    using pf(3) n_test_le[of ?n] by (simp add: df_len_def te tr)
  moreover have "set (index train) \<inter> set (index test) = {}"
    using set_take_disj_set_drop_if_distinct[OF pf(1), of ?k ?k] by (auto simp: te tr)
  moreover have "set (index train) \<union> set (index test) = {0..<?n}"
    using set_append[of "take ?k ?p" "drop ?k ?p"] pf(2) by (auto simp: te tr)
  moreover have "distinct (index train)" "distinct (index test)"
    using pf(1) by (simp_all add: te tr)
  moreover have "df_len test = (?n + 4) div 5"
    using pf(3) n_test_le[of ?n] by (simp add: df_len_def te n_test_of_def)
  ultimately show ?thesis using l by auto
qed

theorem load_partitions_witness:
  "\<exists>train test.
      fst (load sample_RandomState sample_permutation sample_table (0::nat)) = Inr (train, test)
      \<and> df_len train + df_len test = 5
      \<and> set (index train) \<inter> set (index test) = {}
      \<and> df_len test = 1"
proof -
  have "''Category'' \<in> fst ` set sample_table" "2 \<le> nrows sample_table"
    and n: "nrows sample_table = 5"
    by (simp_all add: sample_table_def nrows_def)
  from load_partitions [where permutation = sample_permutation
        and RandomState = sample_RandomState and g = "0::nat",
      OF this(1,2) sample_permutation_mset]
  show ?thesis by (auto simp: n)
qed

text \<open>
  Claim C7. The split is seeded with the constant 42, so the partitions that \<open>load\<close>
  returns for a file do not depend on the state of the process-wide generator: any two
  calls on the same file, whatever that state is at each call, return the same train
  partition and the same test partition. A call leaves that state as it found it.
\<close>

theorem load_deterministic:
  "fst (load RandomState permutation table g) = fst (load RandomState permutation table g')
   \<and> snd (load RandomState permutation table g) = g"
  by (simp add: load_def train_test_split_def Let_def split: sum.splits)

text \<open>
  Claim C8. The loader maps the category column by the fixed mapping: in every row, the
  category \<open>spam\<close> becomes the label 1 and the category \<open>ham\<close> the label 0; the
  labels replace the categories row by row and the messages stay where they are.
\<close>

theorem category_labels:
  assumes "df_getitem df ''Category'' = Inr cats" and "i < length cats"
  shows "map_category df = Inr (df_setitem df ''Category'' (Series_map label_map cats))
       \<and> df_getitem (df_setitem df ''Category'' (Series_map label_map cats)) ''Category''
           = Inr (Series_map label_map cats)
       \<and> df_getitem (df_setitem df ''Category'' (Series_map label_map cats)) ''Message''
           = df_getitem df ''Message''
       \<and> length (Series_map label_map cats) = length cats
       \<and> (cats ! i = Str ''spam'' \<longrightarrow> Series_map label_map cats ! i = Num 1)
       \<and> (cats ! i = Str ''ham'' \<longrightarrow> Series_map label_map cats ! i = Num 0)"
  using assms
  by (simp add: map_category_def df_getitem_setitem Series_map_nth label_map_simps)
     (simp add: Series_map_def)

theorem category_labels_witness:
  "df_getitem (read_csv sample_table) ''Message'' = Inr
     [Str ''Go until jurong point'',
      Str ''Ok lar... Joking wif u oni...'',
      Str ''Free entry in 2 a wkly comp to win FA Cup final tkts'',
      Str ''hello world'',
      Str ''free call'']
   \<and> Series_map label_map [Str ''ham'', Str ''ham'', Str ''spam'', Str ''ham'', Str ''spam''] ! 2
       = Num 1
   \<and> Series_map label_map [Str ''ham'', Str ''ham'', Str ''spam'', Str ''ham'', Str ''spam''] ! 1
       = Num 0"
  using category_labels [OF sample_category, of 2] category_labels [OF sample_category, of 1]
  by (simp add: df_getitem_def read_csv_def sample_table_def)

section \<open>Properties of the labeled example store\<close>

lemma py_index_in_range:
  "- int (length xs) \<le> i \<Longrightarrow> i < int (length xs) \<Longrightarrow>
   py_index xs i = Inr (xs ! nat (if i < 0 then i + int (length xs) else i))"
  by (simp add: py_index_def Let_def)

lemma py_index_out_of_range:
  "i < - int (length xs) \<or> int (length xs) \<le> i \<Longrightarrow> py_index xs i = Inl IndexError"
  by (auto simp add: py_index_def Let_def)

lemma comprehension_in_range:
  assumes "list_all (\<lambda>(key, val). length val = n) encs" "- int n \<le> i" "i < int n"
  shows "map_result (\<lambda>(key, val). case py_index val i of
                              Inl e \<Rightarrow> Inl e
                            | Inr row \<Rightarrow> Inr (key, Tensor1 row)) encs
         = Inr (map (\<lambda>(key, val). (key, Tensor1 (val ! nat (if i < 0 then i + int n else i)))) encs)"
  using assms
proof (induction encs)
  case Nil
  then show ?case by simp
next
  case (Cons kv encs)
  obtain key val where kv: "kv = (key, val)" by (cases kv)
  with Cons.prems have len: "length val = n" by simp
  have "py_index val i = Inr (val ! nat (if i < 0 then i + int n else i))"
    using py_index_in_range[of val i] Cons.prems len by simp
  moreover have "list_all (\<lambda>(key, val). length val = n) encs" using Cons.prems by simp
  ultimately show ?case using Cons kv by simp
qed

lemma comprehension_error:
  "map_result (\<lambda>(key, val). case py_index val i of
                              Inl e \<Rightarrow> Inl e
                            | Inr row \<Rightarrow> Inr (key, Tensor1 row)) encs = Inl e
   \<Longrightarrow> e = IndexError"
proof (induction encs)
  case Nil
  then show ?case by simp
next
  case (Cons kv encs)
  then show ?case
    by (cases kv) (auto simp: py_index_def Let_def split: sum.splits if_splits)
qed

lemma getitem_in_range:
  assumes "parallel self" "- int (EmailDataset_len self) \<le> i" "i < int (EmailDataset_len self)"
  shows "EmailDataset_getitem self i
         = Inr (record_at self (nat (if i < 0 then i + int (EmailDataset_len self) else i)))"
proof -
  define n where "n = length (labels self)"
  define k where "k = nat (if i < 0 then i + int n else i)"
  have enc: "list_all (\<lambda>(key, val). length val = n) (encodings self)"
    and num: "list_all is_number (labels self)"
    using assms(1) by (simp_all add: parallel_def n_def)
  have k: "k < n" using assms(2,3) by (auto simp: EmailDataset_len_def k_def n_def)
  then have "is_number (labels self ! k)" using num by (simp add: list_all_length n_def)
  then have t: "torch_tensor_label (labels self ! k) = Inr (label_tensor (labels self ! k))"
    by (cases "labels self ! k") (simp_all add: torch_tensor_label_def is_number_def)
  have l: "py_index (labels self) i = Inr (labels self ! k)"
    using py_index_in_range[of "labels self" i] assms(2,3)
    by (simp add: EmailDataset_len_def k_def n_def)
  have c: "map_result (\<lambda>(key, val). case py_index val i of
                              Inl e \<Rightarrow> Inl e
                            | Inr row \<Rightarrow> Inr (key, Tensor1 row)) (encodings self)
         = Inr (map (\<lambda>(key, val). (key, Tensor1 (val ! k))) (encodings self))"
    using comprehension_in_range[OF enc, of i] assms(2,3)
    by (simp add: EmailDataset_len_def k_def n_def)
  have "EmailDataset_getitem self i = Inr (record_at self k)"
    by (simp add: EmailDataset_getitem_def c l t record_at_def)
  then show ?thesis by (simp add: k_def n_def EmailDataset_len_def)
qed

lemma getitem_out_of_range:
  assumes "i < - int (EmailDataset_len self) \<or> int (EmailDataset_len self) \<le> i"
  shows "EmailDataset_getitem self i = Inl IndexError"
proof -
  have l: "py_index (labels self) i = Inl IndexError"
    using py_index_out_of_range[of i "labels self"] assms by (simp add: EmailDataset_len_def)
  show ?thesis
    using comprehension_error[of i "encodings self"]
    by (auto simp add: EmailDataset_getitem_def l split: sum.splits)
qed

text \<open>
  The stores of the notebook are parallel: \<^verbatim>\<open>EmailDataset(train_encodings, list(train_df['Category']))\<close>
  has one encoded row per message and one mapped label per message.
\<close>

lemma Series_map_numeric: "list_all is_number (Series_map d col)"
  by (induction col) (auto simp: Series_map_def is_number_def split: cell.splits option.splits)

lemma notebook_store_parallel:
  assumes "length messages = length col"
  shows "parallel (EmailDataset (train_encodings tk messages) (Series_map label_map col))"
  using assms Series_map_numeric[of label_map col]
  by (simp add: parallel_def EmailDataset_def items_def train_encodings_def tokenizer_call_def
      Let_def Series_map_def)

lemma sample_dataset_eq:
  "sample_dataset =
     \<lparr> encodings = [(''input_ids'', [[101, 7592, 102, 0], [101, 7592, 2088, 102]]),
                    (''token_type_ids'', [[0, 0, 0, 0], [0, 0, 0, 0]]),
                    (''attention_mask'', [[1, 1, 1, 0], [1, 1, 1, 1]])],
       labels = [Num 0, Num 1] \<rparr>"
  by (simp add: sample_dataset_def EmailDataset_def items_def sample_encodings)

lemma sample_dataset_parallel: "parallel sample_dataset"
  by (simp add: sample_dataset_eq parallel_def is_number_def)

lemma sample_dataset_len: "EmailDataset_len sample_dataset = 2"
  by (simp add: sample_dataset_eq EmailDataset_len_def)

lemma sample_dataset_last:
  "record_at sample_dataset (Suc 0) =
     [(''input_ids'', Tensor1 [101, 7592, 2088, 102]),
      (''token_type_ids'', Tensor1 [0, 0, 0, 0]),
      (''attention_mask'', Tensor1 [1, 1, 1, 1]),
      (''labels'', Tensor0 (Some 1))]"
  by (simp add: sample_dataset_eq record_at_def label_tensor_def)

text \<open>
  Claim C5, as stated: \<open>get(i)\<close> raises IndexError if and only if \<open>i\<close> is outside
  \<open>[0, size())\<close>. The getter indexes Python lists, where a negative index counts from
  the end: in a store of two records \<open>get(-1)\<close> returns the last record.
\<close>

theorem getitem_negative_counterexample:
  "EmailDataset_getitem sample_dataset (- 1) =
     Inr [(''input_ids'', Tensor1 [101, 7592, 2088, 102]),
          (''token_type_ids'', Tensor1 [0, 0, 0, 0]),
          (''attention_mask'', Tensor1 [1, 1, 1, 1]),
          (''labels'', Tensor0 (Some 1))]
   \<and> \<not> ((EmailDataset_getitem sample_dataset (- 1) = Inl IndexError)
          = (\<not> (0 \<le> (- 1 :: int) \<and> (- 1 :: int) < int (EmailDataset_len sample_dataset))))"
  by (simp add: sample_dataset_eq EmailDataset_getitem_def py_index_def Let_def
      torch_tensor_label_def label_tensor_def EmailDataset_len_def)

text \<open>
  Claim C5, amended. For every store whose encodings and labels are parallel (one row
  per label under every key, numeric labels) and every integer \<open>i\<close>, \<open>get(i)\<close> raises
  IndexError if and only if \<open>i\<close> is outside \<open>[-size(), size())\<close>; for \<open>i\<close> in
  \<open>[0, size())\<close> it succeeds and returns the encoded record at \<open>i\<close> paired with its
  label.
\<close>

theorem getitem_index_error:
  assumes "parallel self"
  shows "(EmailDataset_getitem self i = Inl IndexError)
           = (i < - int (EmailDataset_len self) \<or> int (EmailDataset_len self) \<le> i)
       \<and> (0 \<le> i \<and> i < int (EmailDataset_len self) \<longrightarrow>
             EmailDataset_getitem self i = Inr (record_at self (nat i)))"
proof (cases "i < - int (EmailDataset_len self) \<or> int (EmailDataset_len self) \<le> i")
  case True
  then show ?thesis using getitem_out_of_range[OF True] by auto
next
  case False
  then have "- int (EmailDataset_len self) \<le> i" "i < int (EmailDataset_len self)" by auto
  from getitem_in_range[OF assms this] False show ?thesis by auto
qed

theorem getitem_index_error_witness:
  "EmailDataset_getitem sample_dataset 2 = Inl IndexError
   \<and> EmailDataset_getitem sample_dataset (- 3) = Inl IndexError
   \<and> EmailDataset_getitem sample_dataset (- 2) \<noteq> Inl IndexError
   \<and> EmailDataset_getitem sample_dataset 1 = Inr (record_at sample_dataset 1)"
  using getitem_index_error [OF sample_dataset_parallel, of 2]
        getitem_index_error [OF sample_dataset_parallel, of "- 3"]
        getitem_index_error [OF sample_dataset_parallel, of "- 2"]
        getitem_index_error [OF sample_dataset_parallel, of 1]
  by (simp add: sample_dataset_len)

text \<open>
  Claim C10. For every store of size \<open>n\<close> whose encodings and labels are parallel and
  every integer \<open>i\<close> with \<open>-n \<le> i < 0\<close>, \<open>get(i)\<close> does not raise: it returns the
  record at position \<open>n + i\<close>.
\<close>

theorem getitem_negative_index:
  assumes "parallel self" and "- int (EmailDataset_len self) \<le> i" and "i < 0"
  shows "EmailDataset_getitem self i
           = Inr (record_at self (nat (int (EmailDataset_len self) + i)))"
  using getitem_in_range[OF assms(1,2)] assms(3) by (simp add: add.commute)

theorem getitem_negative_index_witness:
  "EmailDataset_getitem sample_dataset (- 1) =
     Inr [(''input_ids'', Tensor1 [101, 7592, 2088, 102]),
          (''token_type_ids'', Tensor1 [0, 0, 0, 0]),
          (''attention_mask'', Tensor1 [1, 1, 1, 1]),
          (''labels'', Tensor0 (Some 1))]"
  using getitem_negative_index [OF sample_dataset_parallel, of "- 1"]
  by (simp add: sample_dataset_len sample_dataset_last)

end
